theory Spec2Isabelle
  imports
    Complex_Main
    "HOL-Library.Char_ord"
    "HOL-Library.List_Lexorder"
    "HOL-Library.AList"
    "HOL-Library.Multiset"
    "HOL-Library.Sublist"
begin

section \<open>Floats\<close>

text \<open>
  A Python float is a finite number, one of the two infinities, or NaN. The finite ones
  are modelled by the reals they denote. The two zeros are one value here: they compare
  equal, and the code never divides by a zero.
\<close>

datatype pyfloat = Fin real | PInf | NInf | NaN

section \<open>Values of a trade document\<close>

text \<open>
  \<open>compute_metrics\<close> receives the documents of the trade collection as Python
  dictionaries. A field of such a dictionary is any value the store can hold; the code
  distinguishes them by truthiness, by \<open>float()\<close>, and by the string methods
  \<open>replace\<close> and \<open>lower\<close>. \<open>PyOther b\<close> stands for every other object
  (list, dict, datetime, ObjectId), \<open>b\<close> being its truth value.
\<close>

datatype pyval =
    PyNone
  | PyBool bool
  | PyInt int
  | PyFloat pyfloat
  | PyStr string
  | PyBytes string
  | PyOther bool

type_synonym trade = "string \<rightharpoonup> pyval"

datatype exn =
    ValueError
  | TypeError
  | AttributeError
  | KeyError
  | OverflowError
  | ZeroDivisionError

record pydatetime =
  dt_year :: nat
  dt_month :: nat
  dt_day :: nat
  dt_hour :: nat
  dt_minute :: nat
  dt_second :: nat
  dt_microsecond :: nat
  dt_utcoffset :: "int option"

record date =
  date_year :: nat
  date_month :: nat
  date_day :: nat

text \<open>
  The parts of the Python runtime the code calls and this repository does not define:
  \<^item> \<open>datetime.fromisoformat\<close> (\<open>None\<close> when it raises \<open>ValueError\<close>);
  \<^item> the parser inside \<open>float(str)\<close> (\<open>None\<close> when it raises \<open>ValueError\<close>; it
    accepts \<open>"inf"\<close> and \<open>"nan"\<close>);
  \<^item> the rounding \<open>rnd\<close> of the floating-point format: the float an exact result is
    rounded to, an infinity when the result overflows. Addition, subtraction,
    multiplication, division and the conversion of an integer return the rounding of
    the exact result;
  \<^item> \<open>libm_pow\<close>, the function \<open>pow\<close> of the C library, on the arguments \<open>float_pow\<close>
    passes to it: a finite base that is positive and not \<open>1\<close>. It is not required to
    round correctly;
  \<^item> \<open>float_sum\<close>, the builtin \<open>sum\<close> on a non-empty list of floats. Up to CPython 3.11
    it adds from the left; from 3.12 on it compensates the rounding errors of the partial
    sums;
  \<^item> the two float formatters of the insight message, \<open>str(x)\<close> and
    \<open>format(x, '.2f')\<close>.
\<close>

record runtime =
  fromisoformat :: "string \<Rightarrow> pydatetime option"
  float_of_str :: "string \<Rightarrow> pyfloat option"
  rnd :: "real \<Rightarrow> pyfloat"
  libm_pow :: "real \<Rightarrow> real \<Rightarrow> pyfloat"
  float_sum :: "pyfloat list \<Rightarrow> pyfloat"
  float_repr :: "pyfloat \<Rightarrow> string"
  format_2f :: "pyfloat \<Rightarrow> string"

section \<open>Floating-point operations\<close>

text \<open>
  The comparisons \<open>a < b\<close> and \<open>a <= b\<close>: false as soon as an operand is NaN.
  \<open>a > b\<close> is \<open>flt_less b a\<close>.
\<close>

fun flt_less :: "pyfloat \<Rightarrow> pyfloat \<Rightarrow> bool" where
  "flt_less (Fin x) (Fin y) = (x < y)"
| "flt_less NaN b = False"
| "flt_less a NaN = False"
| "flt_less PInf b = False"
| "flt_less a NInf = False"
| "flt_less a b = True"

fun flt_le :: "pyfloat \<Rightarrow> pyfloat \<Rightarrow> bool" where
  "flt_le (Fin x) (Fin y) = (x \<le> y)"
| "flt_le NaN b = False"
| "flt_le a NaN = False"
| "flt_le NInf b = True"
| "flt_le a PInf = True"
| "flt_le a b = False"

fun fneg :: "pyfloat \<Rightarrow> pyfloat" where
  "fneg (Fin x) = Fin (- x)"
| "fneg PInf = NInf"
| "fneg NInf = PInf"
| "fneg NaN = NaN"

text \<open>
  The arithmetic of IEEE 754: on finite operands the rounding of the exact result, on
  the others the special cases (\<open>inf - inf\<close> and \<open>0 * inf\<close> are NaN).
\<close>

fun fadd :: "runtime \<Rightarrow> pyfloat \<Rightarrow> pyfloat \<Rightarrow> pyfloat" where
  "fadd L (Fin x) (Fin y) = rnd L (x + y)"
| "fadd L NaN b = NaN"
| "fadd L a NaN = NaN"
| "fadd L PInf NInf = NaN"
| "fadd L NInf PInf = NaN"
| "fadd L PInf b = PInf"
| "fadd L a PInf = PInf"
| "fadd L NInf b = NInf"
| "fadd L a NInf = NInf"

fun fsub :: "runtime \<Rightarrow> pyfloat \<Rightarrow> pyfloat \<Rightarrow> pyfloat" where
  "fsub L (Fin x) (Fin y) = rnd L (x - y)"
| "fsub L a b = fadd L a (fneg b)"

fun fmul :: "runtime \<Rightarrow> pyfloat \<Rightarrow> pyfloat \<Rightarrow> pyfloat" where
  "fmul L (Fin x) (Fin y) = rnd L (x * y)"
| "fmul L NaN b = NaN"
| "fmul L a NaN = NaN"
| "fmul L (Fin x) b = (if x = 0 then NaN else if (0 < x) = (b = PInf) then PInf else NInf)"
| "fmul L a (Fin y) = (if y = 0 then NaN else if (0 < y) = (a = PInf) then PInf else NInf)"
| "fmul L a b = (if a = b then PInf else NInf)"

text \<open>
  The division \<open>a / b\<close> for a divisor that is not zero. The code divides by the length
  of a list it has found non-empty, by \<open>len - 1\<close> where \<open>len > 1\<close>, and by \<open>std\<close>; the
  check that \<open>std\<close> is not zero is in \<open>sharpe_raw\<close> below.
\<close>

fun fdiv :: "runtime \<Rightarrow> pyfloat \<Rightarrow> pyfloat \<Rightarrow> pyfloat" where
  "fdiv L (Fin x) (Fin y) = rnd L (x / y)"
| "fdiv L NaN b = NaN"
| "fdiv L a NaN = NaN"
| "fdiv L (Fin x) b = Fin 0"
| "fdiv L a (Fin y) = (if (0 < y) = (a = PInf) then PInf else NInf)"
| "fdiv L a b = NaN"

text \<open>
  \<open>x ** 2\<close> and \<open>x ** 0.5\<close>, as \<open>float_pow\<close> computes them: NaN and the infinities are
  answered first, then a zero base, then the base \<open>1\<close>; what is left goes to the C
  library, with the absolute value of a negative base when the exponent is an integer.
  A result of the library that overflows raises \<open>OverflowError\<close>. A negative finite
  base with the exponent \<open>0.5\<close> gives a complex number; the only use the code makes of
  it is the comparison \<open>std > 1e-9\<close> of the next line, which raises \<open>TypeError\<close>.
\<close>

definition checked_pow :: "runtime \<Rightarrow> real \<Rightarrow> real \<Rightarrow> exn + pyfloat" where
  "checked_pow L x y =
     (case libm_pow L x y of
        PInf \<Rightarrow> Inl OverflowError
      | NInf \<Rightarrow> Inl OverflowError
      | r \<Rightarrow> Inr r)"

fun fsquare :: "runtime \<Rightarrow> pyfloat \<Rightarrow> exn + pyfloat" where
  "fsquare L NaN = Inr NaN"
| "fsquare L PInf = Inr PInf"
| "fsquare L NInf = Inr PInf"
| "fsquare L (Fin x) =
     (if x = 0 then Inr (Fin 0)
      else if \<bar>x\<bar> = 1 then Inr (Fin 1)
      else checked_pow L \<bar>x\<bar> 2)"

fun fsqrt :: "runtime \<Rightarrow> pyfloat \<Rightarrow> exn + pyfloat" where
  "fsqrt L NaN = Inr NaN"
| "fsqrt L PInf = Inr PInf"
| "fsqrt L NInf = Inr PInf"
| "fsqrt L (Fin x) =
     (if x = 0 then Inr (Fin 0)
      else if x < 0 then Inl TypeError
      else if x = 1 then Inr (Fin 1)
      else checked_pow L x (1 / 2))"

text \<open>\<open>sum(xs)\<close> starts at the integer 0, which is what it returns on no element.\<close>

definition fsum :: "runtime \<Rightarrow> pyfloat list \<Rightarrow> pyfloat" where
  "fsum L xs = (if xs = [] then Fin 0 else float_sum L xs)"

definition round_half_even :: "real \<Rightarrow> int" where
  "round_half_even x =
     (let f = \<lfloor>x\<rfloor>; d = x - of_int f
      in if d < 1 / 2 then f
         else if 1 / 2 < d then f + 1
         else if even f then f else f + 1)"

text \<open>
  \<open>round(x, n)\<close>: the nearest multiple of \<open>10 ** -n\<close>, ties to the even one; an
  infinity or NaN is returned as it is.
\<close>

fun py_round :: "runtime \<Rightarrow> pyfloat \<Rightarrow> nat \<Rightarrow> pyfloat" where
  "py_round L (Fin x) n = rnd L (of_int (round_half_even (x * 10 ^ n)) / 10 ^ n)"
| "py_round L a n = a"

section \<open>Builtins on values\<close>

definition dict_get :: "trade \<Rightarrow> string \<Rightarrow> pyval \<Rightarrow> pyval" where
  "dict_get t k dflt = (case t k of None \<Rightarrow> dflt | Some v \<Rightarrow> v)"

fun truthy :: "pyval \<Rightarrow> bool" where
  "truthy PyNone = False"
| "truthy (PyBool b) = b"
| "truthy (PyInt n) = (n \<noteq> 0)"
| "truthy (PyFloat x) = (x \<noteq> Fin 0)"
| "truthy (PyStr s) = (s \<noteq> [])"
| "truthy (PyBytes s) = (s \<noteq> [])"
| "truthy (PyOther b) = b"

definition py_or :: "pyval \<Rightarrow> pyval \<Rightarrow> pyval" where
  "py_or a b = (if truthy a then a else b)"

text \<open>
  \<open>float(v)\<close>. An integer too large for the format raises \<open>OverflowError\<close>; a string
  or bytes value the parser rejects raises \<open>ValueError\<close>; \<open>None\<close> and the objects
  without \<open>__float__\<close> raise \<open>TypeError\<close>.
\<close>

fun py_float :: "runtime \<Rightarrow> pyval \<Rightarrow> exn + pyfloat" where
  "py_float L PyNone = Inl TypeError"
| "py_float L (PyBool b) = Inr (Fin (if b then 1 else 0))"
| "py_float L (PyInt n) =
     (case rnd L (of_int n) of
        Fin x \<Rightarrow> Inr (Fin x)
      | _ \<Rightarrow> Inl OverflowError)"
| "py_float L (PyFloat x) = Inr x"
| "py_float L (PyStr s) =
     (case float_of_str L s of None \<Rightarrow> Inl ValueError | Some x \<Rightarrow> Inr x)"
| "py_float L (PyBytes s) =
     (case float_of_str L s of None \<Rightarrow> Inl ValueError | Some x \<Rightarrow> Inr x)"
| "py_float L (PyOther b) = Inl TypeError"

text \<open>
  \<open>str.lower\<close> on the bytes of the string: only ASCII letters change. Python lowers
  other letters too, but no such letter becomes one of \<open>b\<close>, \<open>u\<close>, \<open>y\<close>, so the
  comparison with \<open>"buy"\<close> is the same.
\<close>

definition lower_char :: "char \<Rightarrow> char" where
  "lower_char c =
     (if CHR ''A'' \<le> c \<and> c \<le> CHR ''Z'' then char_of (of_char c + (32::nat)) else c)"

fun py_lower :: "pyval \<Rightarrow> exn + pyval" where
  "py_lower (PyStr s) = Inr (PyStr (map lower_char s))"
| "py_lower (PyBytes s) = Inr (PyBytes (map lower_char s))"
| "py_lower v = Inl AttributeError"

text \<open>\<open>s.replace("Z", "+00:00")\<close>.\<close>

definition replace_Z :: "string \<Rightarrow> string" where
  "replace_Z s = concat (map (\<lambda>c. if c = CHR ''Z'' then ''+00:00'' else [c]) s)"

text \<open>\<open>dt.date()\<close> and \<open>date.isoformat()\<close>, that is \<open>"%04d-%02d-%02d"\<close>.\<close>

definition date_of :: "pydatetime \<Rightarrow> date" where
  "date_of dt =
     \<lparr>date_year = dt_year dt, date_month = dt_month dt, date_day = dt_day dt\<rparr>"

definition digit_char :: "nat \<Rightarrow> char" where
  "digit_char n = char_of (48 + n)"

fun dec :: "nat \<Rightarrow> string" where
  "dec n = (if n < 10 then [digit_char n] else dec (n div 10) @ [digit_char (n mod 10)])"

declare dec.simps [simp del]

definition zfill :: "nat \<Rightarrow> string \<Rightarrow> string" where
  "zfill w s = replicate (w - length s) (CHR ''0'') @ s"

definition date_isoformat :: "date \<Rightarrow> string" where
  "date_isoformat d =
     zfill 4 (dec (date_year d)) @ ''-'' @ zfill 2 (dec (date_month d)) @ ''-''
       @ zfill 2 (dec (date_day d))"

section \<open>The aggregation loop of compute_metrics\<close>

text \<open>
  The \<open>try\<close> block of the loop: \<open>None\<close> is the \<open>continue\<close> of the handler. A value
  without a \<open>replace\<close> method raises \<open>AttributeError\<close>, bytes raise \<open>TypeError\<close> on
  the string arguments, a string that is not a timestamp raises \<open>ValueError\<close>: all
  are caught.
\<close>

definition parse_timestamp :: "runtime \<Rightarrow> trade \<Rightarrow> pydatetime option" where
  "parse_timestamp L t =
     (case dict_get t ''timestamp'' PyNone of
        PyStr s \<Rightarrow> fromisoformat L (replace_Z s)
      | _ \<Rightarrow> None)"

text \<open>
  The dictionary \<open>daily\<close> keeps its keys in insertion order; it is an association list
  with distinct keys, and \<open>daily[day] = v\<close> is \<open>AList.update\<close>.
\<close>

type_synonym daily = "(string \<times> pyfloat) list"

definition daily_get :: "daily \<Rightarrow> string \<Rightarrow> pyfloat \<Rightarrow> pyfloat" where
  "daily_get daily k dflt = (case map_of daily k of None \<Rightarrow> dflt | Some v \<Rightarrow> v)"

definition sign_of :: "pyval \<Rightarrow> int" where
  "sign_of side = (if side = PyStr ''buy'' then 1 else - 1)"

text \<open>The body of the loop after the \<open>try\<close> block, lines 166 to 172.\<close>

definition add_trade :: "runtime \<Rightarrow> trade \<Rightarrow> pydatetime \<Rightarrow> daily \<Rightarrow> exn + daily" where
  "add_trade L t dt daily =
     (let day = date_isoformat (date_of dt) in
      case py_float L (py_or (dict_get t ''quantity'' (PyInt 0)) (PyInt 0)) of
        Inl e \<Rightarrow> Inl e
      | Inr qty \<Rightarrow>
     (case py_float L (py_or (dict_get t ''price'' (PyInt 0)) (PyInt 0)) of
        Inl e \<Rightarrow> Inl e
      | Inr price \<Rightarrow>
     (case py_lower (dict_get t ''side'' (PyStr ''buy'')) of
        Inl e \<Rightarrow> Inl e
      | Inr side \<Rightarrow>
          let sign = sign_of side;
              notional = fmul L (fmul L price qty) (Fin (of_int sign))
          in Inr (AList.update day (fadd L (daily_get daily day (Fin 0)) notional) daily))))"

fun aggregate :: "runtime \<Rightarrow> trade list \<Rightarrow> daily \<Rightarrow> exn + daily" where
  "aggregate L [] daily = Inr daily"
| "aggregate L (t # ts) daily =
     (case parse_timestamp L t of
        None \<Rightarrow> aggregate L ts daily
      | Some dt \<Rightarrow>
          (case add_trade L t dt daily of
             Inl e \<Rightarrow> Inl e
           | Inr daily' \<Rightarrow> aggregate L ts daily'))"

section \<open>The statistics of compute_metrics\<close>

record metrics =
  total_return :: pyfloat
  win_rate :: pyfloat
  volatility :: pyfloat
  sharpe :: pyfloat
  max_drawdown :: pyfloat

record daily_point =
  timestamp :: string
  pnl :: pyfloat

text \<open>
  \<open>daily[d]\<close>, and a list comprehension or generator whose element expression may
  raise.
\<close>

definition getitem :: "daily \<Rightarrow> string \<Rightarrow> exn + pyfloat" where
  "getitem daily d = (case map_of daily d of None \<Rightarrow> Inl KeyError | Some v \<Rightarrow> Inr v)"

fun list_comp :: "('a \<Rightarrow> exn + 'b) \<Rightarrow> 'a list \<Rightarrow> exn + 'b list" where
  "list_comp f [] = Inr []"
| "list_comp f (x # xs) =
     (case f x of
        Inl e \<Rightarrow> Inl e
      | Inr y \<Rightarrow> (case list_comp f xs of Inl e \<Rightarrow> Inl e | Inr ys \<Rightarrow> Inr (y # ys)))"

text \<open>
  The local variables of lines 177 to 184, each as a function of \<open>pnl_series\<close>. The
  names \<open>total_return\<close>, \<open>win_rate\<close> and \<open>sharpe\<close> are taken by the keys of the
  returned dictionary, which hold the rounded values; the unrounded locals carry the
  suffix \<open>_raw\<close>.
\<close>

definition total_return_raw :: "runtime \<Rightarrow> pyfloat list \<Rightarrow> pyfloat" where
  "total_return_raw L pnl_series = fsum L pnl_series"

definition wins :: "pyfloat list \<Rightarrow> nat" where
  "wins pnl_series = length (filter (\<lambda>v. flt_less (Fin 0) v) pnl_series)"

text \<open>\<open>wins / len(pnl_series)\<close> divides two integers: the rounding of the quotient.\<close>

definition win_rate_raw :: "runtime \<Rightarrow> pyfloat list \<Rightarrow> pyfloat" where
  "win_rate_raw L pnl_series =
     (if pnl_series \<noteq> []
      then fmul L (fdiv L (Fin (real (wins pnl_series))) (Fin (real (length pnl_series))))
             (Fin 100)
      else Fin 0)"

definition mean :: "runtime \<Rightarrow> pyfloat list \<Rightarrow> pyfloat" where
  "mean L pnl_series =
     (if pnl_series \<noteq> []
      then fdiv L (total_return_raw L pnl_series) (Fin (real (length pnl_series)))
      else Fin 0)"

definition variance :: "runtime \<Rightarrow> pyfloat list \<Rightarrow> exn + pyfloat" where
  "variance L pnl_series =
     (if 1 < length pnl_series
      then (case list_comp (\<lambda>v. fsquare L (fsub L v (mean L pnl_series))) pnl_series of
              Inl e \<Rightarrow> Inl e
            | Inr squares \<Rightarrow>
                Inr (fdiv L (fsum L squares) (Fin (real (length pnl_series - 1)))))
      else Inr (Fin 0))"

definition std :: "runtime \<Rightarrow> pyfloat list \<Rightarrow> exn + pyfloat" where
  "std L pnl_series =
     (case variance L pnl_series of Inl e \<Rightarrow> Inl e | Inr v \<Rightarrow> fsqrt L v)"

text \<open>
  Line 184, given the value of \<open>std\<close>. The literal \<open>1e-9\<close> is the float nearest to it.
  NaN is not greater than it, so a NaN deviation gives \<open>0.0\<close>.
\<close>

definition sharpe_raw :: "runtime \<Rightarrow> pyfloat list \<Rightarrow> pyfloat \<Rightarrow> exn + pyfloat" where
  "sharpe_raw L pnl_series s =
     (if flt_less (rnd L (1 / 10 ^ 9)) s
      then (if s = Fin 0 then Inl ZeroDivisionError else Inr (fdiv L (mean L pnl_series) s))
      else Inr (Fin 0))"

text \<open>The drawdown loop, lines 187 to 196. The state is \<open>(cum, peak, max_dd)\<close>.\<close>

definition dd_step ::
  "runtime \<Rightarrow> pyfloat \<times> pyfloat \<times> pyfloat \<Rightarrow> pyfloat \<Rightarrow> pyfloat \<times> pyfloat \<times> pyfloat" where
  "dd_step L s v =
     (case s of (cum, peak, max_dd) \<Rightarrow>
        let cum' = fadd L cum v;
            peak' = (if flt_less peak cum' then cum' else peak);
            dd = fsub L peak' cum'
        in (cum', peak', if flt_less max_dd dd then dd else max_dd))"

definition max_dd :: "runtime \<Rightarrow> pyfloat list \<Rightarrow> pyfloat" where
  "max_dd L pnl_series = snd (snd (foldl (dd_step L) (Fin 0, NInf, Fin 0) pnl_series))"

definition metrics_of :: "runtime \<Rightarrow> pyfloat list \<Rightarrow> exn + metrics" where
  "metrics_of L pnl_series =
     (case std L pnl_series of
        Inl e \<Rightarrow> Inl e
      | Inr s \<Rightarrow>
     (case sharpe_raw L pnl_series s of
        Inl e \<Rightarrow> Inl e
      | Inr sh \<Rightarrow>
          Inr \<lparr>total_return = py_round L (total_return_raw L pnl_series) 4,
               win_rate = py_round L (win_rate_raw L pnl_series) 2,
               volatility = py_round L s 4,
               sharpe = py_round L sh 4,
               max_drawdown = py_round L (max_dd L pnl_series) 4\<rparr>))"

definition compute_metrics :: "runtime \<Rightarrow> trade list \<Rightarrow> exn + metrics \<times> daily_point list" where
  "compute_metrics L trades =
     (case aggregate L trades [] of
        Inl e \<Rightarrow> Inl e
      | Inr daily \<Rightarrow>
          let days = sort (map fst daily) in
          (case list_comp (getitem daily) days of
             Inl e \<Rightarrow> Inl e
           | Inr pnl_series \<Rightarrow>
          (case metrics_of L pnl_series of
             Inl e \<Rightarrow> Inl e
           | Inr metrics \<Rightarrow>
               (case list_comp
                       (\<lambda>d. case getitem daily d of
                              Inl e \<Rightarrow> Inl e
                            | Inr v \<Rightarrow> Inr \<lparr>timestamp = d, pnl = v\<rparr>) days of
                  Inl e \<Rightarrow> Inl e
                | Inr daily_list \<Rightarrow> Inr (metrics, daily_list)))))"

section \<open>The insight endpoint\<close>

record insight_metrics = metrics +
  risk_exposure :: pyfloat
  forecast_pnl :: "pyfloat option"

record insight =
  user_id :: string
  title :: string
  message :: string
  tags :: "string list"
  insight_metrics :: insight_metrics

datatype failure = HTTPException nat string | Unhandled exn

text \<open>\<open>daily[-N:]\<close>: the last \<open>N\<close> elements, or all of them when there are fewer.\<close>

definition last_n :: "nat \<Rightarrow> 'a list \<Rightarrow> 'a list" where
  "last_n N xs = drop (length xs - N) xs"

definition forecast :: "runtime \<Rightarrow> daily_point list \<Rightarrow> pyfloat option" where
  "forecast L daily =
     (let N = 3;
          last = map pnl (last_n N daily)
      in if last \<noteq> []
         then Some (py_round L (fdiv L (fsum L last) (Fin (real (length last)))) 4)
         else None)"

definition insight_message :: "runtime \<Rightarrow> metrics \<Rightarrow> pyfloat option \<Rightarrow> string" where
  "insight_message L m fc =
     ''Your win rate is '' @ float_repr L (win_rate m) @ ''%. ''
     @ ''Estimated Sharpe '' @ float_repr L (sharpe m) @ ''. ''
     @ ''Max drawdown observed '' @ float_repr L (max_drawdown m) @ ''. ''
     @ (case fc of
          Some f \<Rightarrow> ''Model projects next-day PnL around '' @ format_2f L f @ ''.''
        | None \<Rightarrow> ''Insufficient data for projection.'')"

text \<open>
  \<open>ai_insights\<close>, given what the store answers: whether the database is configured,
  the identifier of the user the token belongs to, and the user's trade documents. The
  insertion of the insight is best effort and leaves the response unchanged.
\<close>

definition ai_insights :: "runtime \<Rightarrow> bool \<Rightarrow> string option \<Rightarrow> trade list \<Rightarrow> failure + insight list" where
  "ai_insights L db user trades =
     (if \<not> db then Inl (HTTPException 500 ''Database not configured'')
      else case user of
        None \<Rightarrow> Inl (HTTPException 401 ''Invalid user token'')
      | Some uid \<Rightarrow>
          if trades = [] then Inr []
          else (case compute_metrics L trades of
             Inl e \<Rightarrow> Inl (Unhandled e)
           | Inr (m, daily) \<Rightarrow>
               let fc = forecast L daily in
               Inr [\<lparr>user_id = uid,
                     title = ''Daily Risk & Trend Overview'',
                     message = insight_message L m fc,
                     tags = [''risk'', ''trend'', ''forecast''],
                     insight_metrics =
                       metrics.extend m
                         \<lparr>risk_exposure = volatility m, forecast_pnl = fc\<rparr>\<rparr>]))"

section \<open>A runtime to evaluate the model with\<close>

text \<open>
  The theorems below hold for every runtime. To run the model on concrete trades, the
  following one is used. It parses the date-only form \<open>YYYY-MM-DD\<close> of a timestamp and,
  as a float, an unsigned decimal integer: both are accepted by Python with the same
  result, and the strings it is given below and rejects, Python rejects too. It prints a
  float in fixed-point notation, rounds with the function it is given, adds the elements
  of a list from the left, and takes powers exactly.
\<close>

definition digit_val :: "char \<Rightarrow> nat option" where
  "digit_val c =
     (if CHR ''0'' \<le> c \<and> c \<le> CHR ''9'' then Some (of_char c - 48) else None)"

fun nat_of_digits :: "string \<Rightarrow> nat \<Rightarrow> nat option" where
  "nat_of_digits [] acc = Some acc"
| "nat_of_digits (c # cs) acc =
     (case digit_val c of None \<Rightarrow> None | Some d \<Rightarrow> nat_of_digits cs (10 * acc + d))"

definition parse_nat :: "string \<Rightarrow> nat option" where
  "parse_nat s = (if s = [] then None else nat_of_digits s 0)"

definition days_in_month :: "nat \<Rightarrow> nat \<Rightarrow> nat" where
  "days_in_month y m =
     (if m = 2 then (if y mod 4 = 0 \<and> (y mod 100 \<noteq> 0 \<or> y mod 400 = 0) then 29 else 28)
      else if m = 4 \<or> m = 6 \<or> m = 9 \<or> m = 11 then 30 else 31)"

definition iso_date :: "string \<Rightarrow> pydatetime option" where
  "iso_date s =
     (if length s = 10 \<and> s ! 4 = CHR ''-'' \<and> s ! 7 = CHR ''-''
      then (case (parse_nat (take 4 s), parse_nat (take 2 (drop 5 s)), parse_nat (drop 8 s)) of
              (Some y, Some m, Some d) \<Rightarrow>
                if 1 \<le> y \<and> 1 \<le> m \<and> m \<le> 12 \<and> 1 \<le> d \<and> d \<le> days_in_month y m
                then Some \<lparr>dt_year = y, dt_month = m, dt_day = d, dt_hour = 0, dt_minute = 0,
                           dt_second = 0, dt_microsecond = 0, dt_utcoffset = None\<rparr>
                else None
            | _ \<Rightarrow> None)
      else None)"

fun format_fixed :: "nat \<Rightarrow> pyfloat \<Rightarrow> string" where
  "format_fixed n (Fin x) =
     (let q = nat (round_half_even (\<bar>x\<bar> * 10 ^ n))
      in (if x < 0 then ''-'' else []) @ dec (q div 10 ^ n) @ ''.'' @ zfill n (dec (q mod 10 ^ n)))"
| "format_fixed n PInf = ''inf''"
| "format_fixed n NInf = ''-inf''"
| "format_fixed n NaN = ''nan''"

definition base_runtime :: "(real \<Rightarrow> pyfloat) \<Rightarrow> runtime" where
  "base_runtime r =
     \<lparr>fromisoformat = iso_date,
      float_of_str = (\<lambda>s. map_option (\<lambda>n. r (real n)) (parse_nat s)),
      rnd = r,
      libm_pow = (\<lambda>x y. Fin (x powr y)),
      float_sum = (\<lambda>xs. NaN),
      float_repr = format_fixed 4,
      format_2f = format_fixed 2\<rparr>"

definition runtime_of :: "(real \<Rightarrow> pyfloat) \<Rightarrow> runtime" where
  "runtime_of r = (base_runtime r)\<lparr>float_sum := foldl (fadd (base_runtime r)) (Fin 0)\<rparr>"

definition exact_runtime :: runtime where
  "exact_runtime = runtime_of Fin"

section \<open>Notions the claims are stated with\<close>

text \<open>
  A date as Python's \<open>date\<close> type admits it (\<open>MINYEAR = 1\<close>, \<open>MAXYEAR = 9999\<close>), and
  the chronological order of dates.
\<close>

definition valid_date :: "date \<Rightarrow> bool" where
  "valid_date d \<longleftrightarrow>
     1 \<le> date_year d \<and> date_year d \<le> 9999 \<and> 1 \<le> date_month d \<and> date_month d \<le> 12
     \<and> 1 \<le> date_day d \<and> date_day d \<le> 31"

definition date_less :: "date \<Rightarrow> date \<Rightarrow> bool" where
  "date_less a b \<longleftrightarrow>
     date_year a < date_year b
     \<or> (date_year a = date_year b
        \<and> (date_month a < date_month b
           \<or> (date_month a = date_month b \<and> date_day a < date_day b)))"

text \<open>The decimal digits of a number in a field of fixed width.\<close>

fun digits :: "nat \<Rightarrow> nat \<Rightarrow> string" where
  "digits 0 n = []"
| "digits (Suc w) n = digits w (n div 10) @ [digit_char (n mod 10)]"

text \<open>The bucket of a trade: the ISO date of its timestamp, when that parses.\<close>

definition day_key :: "runtime \<Rightarrow> trade \<Rightarrow> string option" where
  "day_key L t = map_option (\<lambda>dt. date_isoformat (date_of dt)) (parse_timestamp L t)"

text \<open>\<open>fromisoformat\<close> returns values of the \<open>datetime\<close> type only.\<close>

definition valid_parser :: "runtime \<Rightarrow> bool" where
  "valid_parser L \<longleftrightarrow> (\<forall>s dt. fromisoformat L s = Some dt \<longrightarrow> valid_date (date_of dt))"

text \<open>The daily series read off the dictionary \<open>daily\<close>, keys ascending.\<close>

definition series_of :: "daily \<Rightarrow> daily_point list" where
  "series_of daily =
     map (\<lambda>d. \<lparr>timestamp = d, pnl = daily_get daily d (Fin 0)\<rparr>) (sort (map fst daily))"

text \<open>
  What the theorems ask of the rounding: it is monotone, and it leaves the integers up
  to \<open>2 ^ 53\<close> as they are. Round-to-nearest of the binary64 format is such a
  function, and so is exact arithmetic. Such a rounding never returns NaN.
\<close>

definition faithful :: "(real \<Rightarrow> pyfloat) \<Rightarrow> bool" where
  "faithful r \<longleftrightarrow>
     (\<forall>x y. x \<le> y \<longrightarrow> flt_le (r x) (r y))
     \<and> (\<forall>n::int. \<bar>n\<bar> \<le> 2 ^ 53 \<longrightarrow> r (of_int n) = Fin (of_int n))"


text \<open>
  Exact arithmetic: nothing is rounded, a sum of finite floats is their sum, and the
  powers \<open>2\<close> and \<open>0.5\<close> are the square and the square root.
\<close>

definition exact_arith :: "runtime \<Rightarrow> bool" where
  "exact_arith L \<longleftrightarrow>
     rnd L = Fin
     \<and> (\<forall>xs. xs \<noteq> [] \<longrightarrow> float_sum L (map Fin xs) = Fin (sum_list xs))
     \<and> (\<forall>x. 0 < x \<longrightarrow> libm_pow L x 2 = Fin (x ^ 2) \<and> libm_pow L x (1 / 2) = Fin (sqrt x))"

text \<open>The mean and the sample variance (divisor \<open>count - 1\<close>) of a series, over the reals.\<close>

definition sample_mean :: "real list \<Rightarrow> real" where
  "sample_mean xs = (if xs = [] then 0 else sum_list xs / real (length xs))"

definition sample_variance :: "real list \<Rightarrow> real" where
  "sample_variance xs =
     (if length xs \<le> 1 then 0
      else (\<Sum>x\<leftarrow>xs. (x - sample_mean xs) ^ 2) / real (length xs - 1))"


section \<open>Evaluation lemmas\<close>

lemma runtime_of_simps:
  "fromisoformat (runtime_of r) = iso_date"
  "float_of_str (runtime_of r) = (\<lambda>s. map_option (\<lambda>n. r (real n)) (parse_nat s))"
  "rnd (runtime_of r) = r"
  "libm_pow (runtime_of r) = (\<lambda>x y. Fin (x powr y))"
  "float_sum (runtime_of r) = foldl (fadd (base_runtime r)) (Fin 0)"
  "rnd (base_runtime r) = r"
  "float_repr (runtime_of r) = format_fixed 4"
  "format_2f (runtime_of r) = format_fixed 2"
  by (simp_all add: runtime_of_def base_runtime_def)

lemma iso_date_examples:
  "iso_date ''2024-03-05'' =
     Some \<lparr>dt_year = 2024, dt_month = 3, dt_day = 5, dt_hour = 0, dt_minute = 0,
           dt_second = 0, dt_microsecond = 0, dt_utcoffset = None\<rparr>"
  "iso_date ''2024-03-06'' =
     Some \<lparr>dt_year = 2024, dt_month = 3, dt_day = 6, dt_hour = 0, dt_minute = 0,
           dt_second = 0, dt_microsecond = 0, dt_utcoffset = None\<rparr>"
  "iso_date ''2024-03-07'' =
     Some \<lparr>dt_year = 2024, dt_month = 3, dt_day = 7, dt_hour = 0, dt_minute = 0,
           dt_second = 0, dt_microsecond = 0, dt_utcoffset = None\<rparr>"
  "iso_date ''yesterday'' = None"
  by (simp_all add: iso_date_def parse_nat_def digit_val_def days_in_month_def)

lemma date_isoformat_examples:
  "date_isoformat \<lparr>date_year = 2024, date_month = 3, date_day = 5\<rparr> = ''2024-03-05''"
  "date_isoformat \<lparr>date_year = 2024, date_month = 3, date_day = 6\<rparr> = ''2024-03-06''"
  "date_isoformat \<lparr>date_year = 2024, date_month = 3, date_day = 7\<rparr> = ''2024-03-07''"
  by (simp_all add: date_isoformat_def zfill_def dec.simps digit_char_def char_of_def bit_iff_odd)

lemma lower_char_examples:
  "lower_char CHR ''S'' = CHR ''s''" "lower_char CHR ''E'' = CHR ''e''"
  "lower_char CHR ''L'' = CHR ''l''" "lower_char CHR ''B'' = CHR ''b''"
  "lower_char CHR ''U'' = CHR ''u''" "lower_char CHR ''Y'' = CHR ''y''"
  "lower_char CHR ''s'' = CHR ''s''" "lower_char CHR ''e'' = CHR ''e''"
  "lower_char CHR ''l'' = CHR ''l''" "lower_char CHR ''b'' = CHR ''b''"
  "lower_char CHR ''u'' = CHR ''u''" "lower_char CHR ''y'' = CHR ''y''"
  "lower_char CHR ''h'' = CHR ''h''" "lower_char CHR ''o'' = CHR ''o''"
  "lower_char CHR ''d'' = CHR ''d''"
  by (simp_all add: lower_char_def char_of_def bit_iff_odd)

lemmas eval_trade =
  parse_timestamp_def dict_get_def exact_runtime_def runtime_of_simps replace_Z_def
  iso_date_examples add_trade_def py_or_def date_of_def date_isoformat_examples sign_of_def
  lower_char_examples daily_get_def

lemmas eval_metrics =
  compute_metrics_def getitem_def metrics_of_def total_return_raw_def fsum_def
  round_half_even_def win_rate_raw_def wins_def mean_def std_def variance_def
  sharpe_raw_def max_dd_def dd_step_def checked_pow_def Let_def

lemma scenario_A:
  "compute_metrics exact_runtime
     [[''timestamp'' \<mapsto> PyStr ''2024-03-05'', ''side'' \<mapsto> PyStr ''buy'',
       ''quantity'' \<mapsto> PyFloat (Fin 10), ''price'' \<mapsto> PyFloat (Fin 100)],
      [''timestamp'' \<mapsto> PyStr ''2024-03-05'', ''side'' \<mapsto> PyStr ''sell'',
       ''quantity'' \<mapsto> PyFloat (Fin 10), ''price'' \<mapsto> PyFloat (Fin 110)]] =
   Inr (\<lparr>total_return = Fin (- 100), win_rate = Fin 0, volatility = Fin 0, sharpe = Fin 0,
          max_drawdown = Fin 0\<rparr>,
        [\<lparr>timestamp = ''2024-03-05'', pnl = Fin (- 100)\<rparr>])"
  by (simp add: eval_trade eval_metrics)

section \<open>The sign of a trade\<close>

text \<open>
  A trade whose timestamp parses and whose side is \<open>None\<close>: \<open>None\<close> has no method
  \<open>lower\<close>, and \<open>compute_metrics\<close> raises \<open>AttributeError\<close> instead of adding a
  notional with the sign \<open>-1\<close>.
\<close>

theorem side_none_raises:
  "compute_metrics exact_runtime
     [[''timestamp'' \<mapsto> PyStr ''2024-03-05'', ''side'' \<mapsto> PyNone,
       ''quantity'' \<mapsto> PyFloat (Fin 10), ''price'' \<mapsto> PyFloat (Fin 100)]] =
   Inl AttributeError"
  by (simp add: eval_trade compute_metrics_def)

text \<open>
  C1. For every trade whose timestamp parses: when \<open>float()\<close> accepts its quantity and
  its price (a missing or falsy one being replaced by \<open>0\<close>) and its side is a string,
  it adds \<open>price * qty * sign\<close> to the bucket of its date, the sign being \<open>1\<close> when
  the lowercased side is \<open>"buy"\<close> and \<open>-1\<close> for every other string; a side of bytes
  gets the sign \<open>-1\<close>; when a conversion fails its exception is raised, and a side that
  is neither a string nor bytes raises \<open>AttributeError\<close>.
  The two trades of the same day, buy 10 at 100 and sell 10 at 110, give the single
  daily point \<open>-100\<close>, \<open>total_return = -100\<close> and \<open>win_rate = 0\<close>.
\<close>

theorem notional_sign:
  assumes "parse_timestamp L t = Some dt"
  shows "aggregate L (t # ts) daily =
          (case py_float L (py_or (dict_get t ''quantity'' (PyInt 0)) (PyInt 0)) of
             Inl e \<Rightarrow> Inl e
           | Inr qty \<Rightarrow>
          (case py_float L (py_or (dict_get t ''price'' (PyInt 0)) (PyInt 0)) of
             Inl e \<Rightarrow> Inl e
           | Inr price \<Rightarrow>
          (case dict_get t ''side'' (PyStr ''buy'') of
             PyStr s \<Rightarrow>
               aggregate L ts
                 (AList.update (date_isoformat (date_of dt))
                    (fadd L (daily_get daily (date_isoformat (date_of dt)) (Fin 0))
                       (fmul L (fmul L price qty)
                          (Fin (if map lower_char s = ''buy'' then 1 else - 1))))
                    daily)
           | PyBytes s \<Rightarrow>
               aggregate L ts
                 (AList.update (date_isoformat (date_of dt))
                    (fadd L (daily_get daily (date_isoformat (date_of dt)) (Fin 0))
                       (fmul L (fmul L price qty) (Fin (- 1))))
                    daily)
           | _ \<Rightarrow> Inl AttributeError)))
         \<and> compute_metrics exact_runtime
             [[''timestamp'' \<mapsto> PyStr ''2024-03-05'', ''side'' \<mapsto> PyStr ''buy'',
               ''quantity'' \<mapsto> PyFloat (Fin 10), ''price'' \<mapsto> PyFloat (Fin 100)],
              [''timestamp'' \<mapsto> PyStr ''2024-03-05'', ''side'' \<mapsto> PyStr ''sell'',
               ''quantity'' \<mapsto> PyFloat (Fin 10), ''price'' \<mapsto> PyFloat (Fin 110)]] =
           Inr (\<lparr>total_return = Fin (- 100), win_rate = Fin 0, volatility = Fin 0,
                  sharpe = Fin 0, max_drawdown = Fin 0\<rparr>,
                [\<lparr>timestamp = ''2024-03-05'', pnl = Fin (- 100)\<rparr>])"
  using assms scenario_A
  by (simp add: add_trade_def sign_of_def Let_def split: sum.splits pyval.splits)

theorem notional_sign_witness:
  "aggregate exact_runtime
     [[''timestamp'' \<mapsto> PyStr ''2024-03-05'', ''side'' \<mapsto> PyStr ''SELL'',
       ''quantity'' \<mapsto> PyFloat (Fin 10), ''price'' \<mapsto> PyFloat (Fin 110)]] [] =
   Inr [(''2024-03-05'', Fin (- 1100))]"
  using notional_sign [of exact_runtime
     "[''timestamp'' \<mapsto> PyStr ''2024-03-05'', ''side'' \<mapsto> PyStr ''SELL'',
       ''quantity'' \<mapsto> PyFloat (Fin 10), ''price'' \<mapsto> PyFloat (Fin 110)]"
     "\<lparr>dt_year = 2024, dt_month = 3, dt_day = 5, dt_hour = 0, dt_minute = 0,
       dt_second = 0, dt_microsecond = 0, dt_utcoffset = None\<rparr>" "[]" "[]"]
  by (simp add: eval_trade)

text \<open>
  A trade whose timestamp parses, that has no \<open>side\<close> key and whose quantity is the
  string \<open>"abc"\<close>: \<open>float("abc")\<close> raises \<open>ValueError\<close> before the side is read, and
  the trade contributes nothing.
\<close>

theorem missing_side_bad_quantity:
  "compute_metrics exact_runtime
     [[''timestamp'' \<mapsto> PyStr ''2024-03-05'', ''quantity'' \<mapsto> PyStr ''abc'',
       ''price'' \<mapsto> PyFloat (Fin 110)]] =
   Inl ValueError"
  by (simp add: eval_trade compute_metrics_def parse_nat_def digit_val_def)

text \<open>
  C10. For every trade whose timestamp parses and that has no \<open>side\<close> key: when
  \<open>float()\<close> accepts its quantity and its price (a missing or falsy one being replaced
  by \<open>0\<close>), it gets the sign of a buy and adds \<open>price * qty * 1\<close> to the bucket of
  its date; when a conversion fails, its exception is raised.
\<close>

theorem missing_side_is_buy:
  assumes "parse_timestamp L t = Some dt" and "t ''side'' = None"
  shows "aggregate L (t # ts) daily =
          (case py_float L (py_or (dict_get t ''quantity'' (PyInt 0)) (PyInt 0)) of
             Inl e \<Rightarrow> Inl e
           | Inr qty \<Rightarrow>
          (case py_float L (py_or (dict_get t ''price'' (PyInt 0)) (PyInt 0)) of
             Inl e \<Rightarrow> Inl e
           | Inr price \<Rightarrow>
               aggregate L ts
                 (AList.update (date_isoformat (date_of dt))
                    (fadd L (daily_get daily (date_isoformat (date_of dt)) (Fin 0))
                       (fmul L (fmul L price qty) (Fin 1)))
                    daily)))"
  using assms
  by (simp add: add_trade_def dict_get_def sign_of_def Let_def lower_char_examples
      split: sum.splits)

theorem missing_side_is_buy_witness:
  "aggregate exact_runtime
     [[''timestamp'' \<mapsto> PyStr ''2024-03-05'', ''quantity'' \<mapsto> PyFloat (Fin 10),
       ''price'' \<mapsto> PyFloat (Fin 110)]] [] =
   Inr [(''2024-03-05'', Fin 1100)]"
  using missing_side_is_buy [of exact_runtime
     "[''timestamp'' \<mapsto> PyStr ''2024-03-05'', ''quantity'' \<mapsto> PyFloat (Fin 10),
       ''price'' \<mapsto> PyFloat (Fin 110)]"
     "\<lparr>dt_year = 2024, dt_month = 3, dt_day = 5, dt_hour = 0, dt_minute = 0,
       dt_second = 0, dt_microsecond = 0, dt_utcoffset = None\<rparr>" "[]" "[]"]
  by (simp add: eval_trade)

section \<open>ISO dates sort chronologically\<close>

lemma append_less_append:
  "length xs = length ys \<Longrightarrow> (xs @ us < ys @ vs) \<longleftrightarrow> (xs < ys \<or> (xs = ys \<and> us < vs))"
  for xs ys :: "'a::linorder list"
  by (induction xs ys rule: list_induct2) auto

lemma digit_char_less: "a < 10 \<Longrightarrow> b < 10 \<Longrightarrow> digit_char a < digit_char b \<longleftrightarrow> a < b"
  by (simp add: digit_char_def less_char_def)

lemma digit_char_eq: "a < 10 \<Longrightarrow> b < 10 \<Longrightarrow> digit_char a = digit_char b \<longleftrightarrow> a = b"
  by (metis digit_char_less less_irrefl linorder_neqE_nat)

lemma digit_char_0: "digit_char 0 = CHR ''0''"
  by (simp add: digit_char_def char_of_def bit_iff_odd)

lemma length_digits [simp]: "length (digits w n) = w"
  by (induction w arbitrary: n) auto

lemma eq10: "(n::nat) = m \<longleftrightarrow> n div 10 = m div 10 \<and> n mod 10 = m mod 10"
  by (metis div_mult_mod_eq)

lemma lt10: "(n::nat) < m \<longleftrightarrow> n div 10 < m div 10 \<or> (n div 10 = m div 10 \<and> n mod 10 < m mod 10)"
proof -
  have n: "n = 10 * (n div 10) + n mod 10" and m: "m = 10 * (m div 10) + m mod 10" by simp_all
  have "n mod 10 < 10" "m mod 10 < 10" by simp_all
  then show ?thesis using n m by linarith
qed

lemma digits_less:
  "n < 10 ^ w \<Longrightarrow> m < 10 ^ w \<Longrightarrow>
     (digits w n < digits w m \<longleftrightarrow> n < m) \<and> (digits w n = digits w m \<longleftrightarrow> n = m)"
proof (induction w arbitrary: n m)
  case 0
  then show ?case by simp
next
  case (Suc w)
  have n: "n div 10 < 10 ^ w" and m: "m div 10 < 10 ^ w"
    using Suc.prems by (simp_all add: less_mult_imp_div_less mult.commute)
  note ih = Suc.IH [OF n m]
  have "digits (Suc w) n < digits (Suc w) m \<longleftrightarrow>
          n div 10 < m div 10 \<or> (n div 10 = m div 10 \<and> n mod 10 < m mod 10)"
    using ih by (simp add: append_less_append digit_char_less)
  moreover have "digits (Suc w) n = digits (Suc w) m \<longleftrightarrow>
          n div 10 = m div 10 \<and> n mod 10 = m mod 10"
    using ih by (simp add: digit_char_eq)
  ultimately show ?case
    using lt10 [of n m] eq10 [of n m] by blast
qed

lemma dec_length: "n < 10 ^ w \<Longrightarrow> 0 < w \<Longrightarrow> length (dec n) \<le> w"
proof (induction n arbitrary: w rule: dec.induct)
  case (1 n)
  show ?case
  proof (cases "n < 10")
    case True
    then show ?thesis using "1.prems" by (simp add: dec.simps)
  next
    case False
    obtain v where w: "w = Suc v" using "1.prems" by (cases w) auto
    have "0 < v" using False "1.prems" w by (cases v) auto
    moreover have "n div 10 < 10 ^ v" using "1.prems" w by (simp add: less_mult_imp_div_less mult.commute)
    ultimately have "length (dec (n div 10)) \<le> v" using "1.IH" False by simp
    then show ?thesis using False w by (subst dec.simps) simp
  qed
qed

lemma digits_zero: "digits v 0 = replicate v (CHR ''0'')"
  by (induction v) (simp_all add: digit_char_0 replicate_append_same)

lemma zfill_dec: "n < 10 ^ w \<Longrightarrow> 0 < w \<Longrightarrow> zfill w (dec n) = digits w n"
proof (induction n arbitrary: w rule: dec.induct)
  case (1 n)
  obtain v where w: "w = Suc v" using "1.prems" by (cases w) auto
  show ?case
  proof (cases "n < 10")
    case True
    then show ?thesis using w by (simp add: dec.simps zfill_def digits_zero)
  next
    case False
    have v: "0 < v" using False "1.prems" w by (cases v) auto
    have lt: "n div 10 < 10 ^ v" using "1.prems" w by (simp add: less_mult_imp_div_less mult.commute)
    have ih: "zfill v (dec (n div 10)) = digits v (n div 10)" using "1.IH" False lt v by simp
    have len: "length (dec (n div 10)) \<le> v" using dec_length lt v by simp
    have "zfill w (dec n) = zfill v (dec (n div 10)) @ [digit_char (n mod 10)]"
      using False w len by (subst dec.simps) (simp add: zfill_def Suc_diff_le)
    then show ?thesis using ih w by simp
  qed
qed

lemma date_isoformat_digits:
  "valid_date d \<Longrightarrow>
     date_isoformat d = digits 4 (date_year d) @ ''-'' @ digits 2 (date_month d) @ ''-'' @ digits 2 (date_day d)"
  by (simp add: date_isoformat_def valid_date_def zfill_dec del: digits.simps)

lemma date_isoformat_less:
  assumes "valid_date a" "valid_date b"
  shows "date_isoformat a < date_isoformat b \<longleftrightarrow> date_less a b"
proof -
  have y: "date_year a < 10 ^ 4" "date_year b < 10 ^ 4"
    and m: "date_month a < 10 ^ 2" "date_month b < 10 ^ 2"
    and d: "date_day a < 10 ^ 2" "date_day b < 10 ^ 2"
    using assms by (simp_all add: valid_date_def)
  show ?thesis
    using digits_less [OF y] digits_less [OF m] digits_less [OF d]
    by (simp add: date_isoformat_digits assms append_less_append date_less_def del: digits.simps)
qed

section \<open>The shape of the result\<close>

lemma list_comp_map:
  "(\<And>x. x \<in> set xs \<Longrightarrow> f x = Inr (g x)) \<Longrightarrow> list_comp f xs = Inr (map g xs)"
  by (induction xs) simp_all

lemma getitem_key:
  "d \<in> fst ` set daily \<Longrightarrow> getitem daily d = Inr (daily_get daily d (Fin 0))"
  by (auto simp: getitem_def daily_get_def map_of_eq_None_iff split: option.splits)

lemma compute_metrics_Inr:
  assumes "aggregate L trades [] = Inr daily"
  shows "compute_metrics L trades =
           (case metrics_of L (map pnl (series_of daily)) of
              Inl e \<Rightarrow> Inl e
            | Inr m \<Rightarrow> Inr (m, series_of daily))"
proof -
  let ?days = "sort (map fst daily)"
  have a: "list_comp (getitem daily) ?days = Inr (map (\<lambda>d. daily_get daily d (Fin 0)) ?days)"
    by (rule list_comp_map) (simp add: getitem_key)
  have b: "list_comp (\<lambda>d. case getitem daily d of Inl e \<Rightarrow> Inl e
                          | Inr v \<Rightarrow> Inr \<lparr>timestamp = d, pnl = v\<rparr>) ?days =
           Inr (map (\<lambda>d. \<lparr>timestamp = d, pnl = daily_get daily d (Fin 0)\<rparr>) ?days)"
    by (rule list_comp_map) (simp add: getitem_key)
  have c: "map pnl (series_of daily) = map (\<lambda>d. daily_get daily d (Fin 0)) ?days"
    by (simp add: series_of_def comp_def)
  show ?thesis
    using assms a b c
    by (simp add: compute_metrics_def Let_def series_of_def comp_def split: sum.splits)
qed

lemma compute_metrics_Inl:
  "aggregate L trades [] = Inl e \<Longrightarrow> compute_metrics L trades = Inl e"
  by (simp add: compute_metrics_def)

lemma add_trade_Inr:
  "add_trade L t dt daily = Inr daily' \<Longrightarrow>
     \<exists>v. daily' = AList.update (date_isoformat (date_of dt)) v daily"
  by (auto simp: add_trade_def Let_def split: sum.splits)

lemma add_trade_keys:
  assumes "add_trade L t dt daily = Inr daily'"
  shows "set (map fst daily') = insert (date_isoformat (date_of dt)) (set (map fst daily))
     \<and> (distinct (map fst daily) \<longrightarrow> distinct (map fst daily'))"
proof -
  obtain v where "daily' = AList.update (date_isoformat (date_of dt)) v daily"
    using add_trade_Inr [OF assms] by blast
  then show ?thesis
    by (simp add: AList.dom_update AList.distinct_update)
qed

lemma aggregate_keys:
  "aggregate L ts daily = Inr daily' \<Longrightarrow>
     set (map fst daily') = set (map fst daily) \<union> {d. \<exists>t \<in> set ts. day_key L t = Some d}"
proof (induction ts arbitrary: daily)
  case Nil
  then show ?case by simp
next
  case (Cons t ts)
  show ?case
  proof (cases "parse_timestamp L t")
    case None
    then have "aggregate L ts daily = Inr daily'" using Cons.prems by simp
    from Cons.IH [OF this] None show ?thesis by (auto simp: day_key_def)
  next
    case (Some dt)
    then obtain d1 where d1: "add_trade L t dt daily = Inr d1" and rest: "aggregate L ts d1 = Inr daily'"
      using Cons.prems by (auto split: sum.splits)
    from add_trade_keys [OF d1] Cons.IH [OF rest] Some show ?thesis
      by (auto simp: day_key_def)
  qed
qed

lemma aggregate_distinct:
  "aggregate L ts daily = Inr daily' \<Longrightarrow> distinct (map fst daily) \<Longrightarrow> distinct (map fst daily')"
proof (induction ts arbitrary: daily)
  case Nil
  then show ?case by simp
next
  case (Cons t ts)
  show ?case
  proof (cases "parse_timestamp L t")
    case None
    then show ?thesis using Cons by simp
  next
    case (Some dt)
    then obtain d1 where d1: "add_trade L t dt daily = Inr d1" and rest: "aggregate L ts d1 = Inr daily'"
      using Cons.prems by (auto split: sum.splits)
    from add_trade_keys [OF d1] Cons.prems(2) have "distinct (map fst d1)" by simp
    from Cons.IH [OF rest this] show ?thesis .
  qed
qed

lemma timestamps_series_of: "map timestamp (series_of daily) = sort (map fst daily)"
  by (simp add: series_of_def comp_def)

lemma series_sorted:
  "distinct (map fst daily) \<Longrightarrow> sorted_wrt (<) (map timestamp (series_of daily))"
  by (simp add: timestamps_series_of strict_sorted_iff)


lemma day_key_valid:
  "valid_parser L \<Longrightarrow> day_key L t = Some d \<Longrightarrow> \<exists>x. valid_date x \<and> date_isoformat x = d"
  by (auto simp: day_key_def parse_timestamp_def valid_parser_def split: pyval.splits)

lemma sorted_dates:
  assumes "sorted_wrt (<) (map date_isoformat ds)" "\<forall>x \<in> set ds. valid_date x"
  shows "sorted_wrt date_less ds"
proof -
  have "sorted_wrt (\<lambda>a b. date_isoformat a < date_isoformat b) ds"
    using assms(1) by (simp add: sorted_wrt_map)
  then show ?thesis
    by (rule sorted_wrt_mono_rel [rotated]) (use assms(2) date_isoformat_less in blast)
qed

lemma compute_metrics_series:
  assumes "compute_metrics L trades = Inr (m, dl)"
  shows "\<exists>daily. aggregate L trades [] = Inr daily \<and> dl = series_of daily"
proof -
  obtain daily where agg: "aggregate L trades [] = Inr daily"
    using assms compute_metrics_Inl [of L trades] by (cases "aggregate L trades []") auto
  have "dl = series_of daily"
    using compute_metrics_Inr [OF agg] assms by (simp split: sum.splits)
  then show ?thesis using agg by blast
qed

lemma compute_metrics_metrics:
  assumes "compute_metrics L trades = Inr (m, dl)"
  shows "metrics_of L (map pnl dl) = Inr m"
proof -
  obtain daily where agg: "aggregate L trades [] = Inr daily"
    using assms compute_metrics_Inl [of L trades] by (cases "aggregate L trades []") auto
  show ?thesis
    using compute_metrics_Inr [OF agg] assms by (auto split: sum.splits)
qed

text \<open>
  C8. The daily series returned by \<open>compute_metrics\<close> is strictly ascending in its
  date strings, so no date occurs twice; its dates are exactly the dates of the trades
  whose timestamp parses; and, the parser returning dates of years 1 to 9999, the strings
  are the ISO forms of a chronologically strictly increasing list of dates.
\<close>

theorem daily_series_sorted:
  assumes "compute_metrics L trades = Inr (m, daily_list)"
  shows "sorted_wrt (<) (map timestamp daily_list)
       \<and> set (map timestamp daily_list) = {d. \<exists>t \<in> set trades. day_key L t = Some d}
       \<and> (valid_parser L \<longrightarrow>
            (\<exists>ds. map timestamp daily_list = map date_isoformat ds
                \<and> sorted_wrt date_less ds \<and> (\<forall>x \<in> set ds. valid_date x)))"
proof -
  obtain daily where agg: "aggregate L trades [] = Inr daily" and dl: "daily_list = series_of daily"
    using compute_metrics_series [OF assms] by blast
  have dist: "distinct (map fst daily)"
    using aggregate_distinct [OF agg] by simp
  have keys: "set (map fst daily) = {d. \<exists>t \<in> set trades. day_key L t = Some d}"
    using aggregate_keys [OF agg] by simp
  have srt: "sorted_wrt (<) (map timestamp daily_list)"
    using dist dl by (simp add: series_sorted)
  have st: "set (map timestamp daily_list) = {d. \<exists>t \<in> set trades. day_key L t = Some d}"
    using keys dl by (simp add: timestamps_series_of)
  have chrono: "\<exists>ds. map timestamp daily_list = map date_isoformat ds
                \<and> sorted_wrt date_less ds \<and> (\<forall>x \<in> set ds. valid_date x)"
    if vp: "valid_parser L"
  proof -
    define pick where "pick d = (SOME x. valid_date x \<and> date_isoformat x = d)" for d
    have pick: "valid_date (pick d) \<and> date_isoformat (pick d) = d"
      if "d \<in> set (map timestamp daily_list)" for d
    proof -
      have "d \<in> {d. \<exists>t \<in> set trades. day_key L t = Some d}" using that st by simp
      then obtain t where "day_key L t = Some d" by blast
      from day_key_valid [OF vp this] show ?thesis
        unfolding pick_def by (rule someI_ex)
    qed
    let ?ds = "map pick (map timestamp daily_list)"
    have eq: "map timestamp daily_list = map date_isoformat ?ds"
      using pick by (simp add: map_idI comp_def)
    have val: "\<forall>x \<in> set ?ds. valid_date x" using pick by auto
    have "sorted_wrt (<) (map date_isoformat ?ds)" using srt eq by metis
    then have "sorted_wrt date_less ?ds"
      using val by (rule sorted_dates)
    then show ?thesis using eq val by blast
  qed
  show ?thesis using srt st chrono by blast
qed

lemma nat_of_digits_bound:
  "nat_of_digits s acc = Some n \<Longrightarrow> n < (acc + 1) * 10 ^ length s"
proof (induction s arbitrary: acc)
  case Nil
  then show ?case by simp
next
  case (Cons c cs)
  then obtain d where d: "digit_val c = Some d" and r: "nat_of_digits cs (10 * acc + d) = Some n"
    by (auto split: option.splits)
  have "d < 10" using d by (auto simp: digit_val_def less_eq_char_def split: if_splits)
  then have "(10 * acc + d + 1) * 10 ^ length cs \<le> ((acc + 1) * 10) * 10 ^ length cs"
    by (intro mult_le_mono1) simp
  moreover have "n < (10 * acc + d + 1) * 10 ^ length cs" using Cons.IH [OF r] .
  ultimately have "n < ((acc + 1) * 10) * 10 ^ length cs" by (rule less_le_trans [rotated])
  then show ?case by (simp only: length_Cons power_Suc mult.assoc)
qed

lemma valid_parser_runtime_of: "valid_parser (runtime_of r)"
proof -
  have "valid_date (date_of dt)" if "iso_date s = Some dt" for s dt
  proof -
    from that obtain y mo d where len: "length s = 10"
      and y: "parse_nat (take 4 s) = Some y" and rng: "1 \<le> y" "1 \<le> mo" "mo \<le> 12" "1 \<le> d" "d \<le> days_in_month y mo"
      and dt: "date_of dt = \<lparr>date_year = y, date_month = mo, date_day = d\<rparr>"
      by (auto simp: iso_date_def date_of_def split: if_splits option.splits)
    have "y < 10 ^ 4"
      using y len nat_of_digits_bound [of "take 4 s" 0 y] by (simp add: parse_nat_def split: if_splits)
    moreover have "days_in_month y mo \<le> 31" by (simp add: days_in_month_def)
    ultimately show ?thesis using rng dt by (simp add: valid_date_def)
  qed
  then show ?thesis by (simp add: valid_parser_def runtime_of_simps)
qed

theorem daily_series_sorted_witness:
  "sorted_wrt (<) [''2024-03-05'', ''2024-03-06'']
   \<and> (\<exists>ds. [''2024-03-05'', ''2024-03-06''] = map date_isoformat ds \<and> sorted_wrt date_less ds
           \<and> (\<forall>x \<in> set ds. valid_date x))"
proof -
  have run: "compute_metrics exact_runtime
      [[''timestamp'' \<mapsto> PyStr ''2024-03-06'', ''quantity'' \<mapsto> PyFloat (Fin 1),
        ''price'' \<mapsto> PyFloat (Fin 5)],
       [''timestamp'' \<mapsto> PyStr ''2024-03-05'', ''quantity'' \<mapsto> PyFloat (Fin 1),
        ''price'' \<mapsto> PyFloat (Fin 7)],
       [''timestamp'' \<mapsto> PyStr ''2024-03-06'', ''quantity'' \<mapsto> PyFloat (Fin 2),
        ''price'' \<mapsto> PyFloat (Fin 1)]] =
     Inr (\<lparr>total_return = Fin 14, win_rate = Fin 100, volatility = Fin 0, sharpe = Fin 0,
            max_drawdown = Fin 0\<rparr>,
          [\<lparr>timestamp = ''2024-03-05'', pnl = Fin 7\<rparr>, \<lparr>timestamp = ''2024-03-06'', pnl = Fin 7\<rparr>])"
    by (simp add: eval_trade eval_metrics)
  have vp: "valid_parser exact_runtime"
    by (simp add: exact_runtime_def valid_parser_runtime_of)
  show ?thesis
    using daily_series_sorted [OF run] vp by simp
qed

section \<open>Rounding\<close>

lemma flt_le_trans: "flt_le a b \<Longrightarrow> flt_le b c \<Longrightarrow> flt_le a c"
  by (cases a; cases b; cases c) auto


lemma flt_le_Fin_0: "flt_le (Fin 0) a \<longleftrightarrow> a = PInf \<or> (\<exists>x. a = Fin x \<and> 0 \<le> x)"
  by (cases a) auto

lemma faithful_id: "faithful Fin"
  by (simp add: faithful_def)

lemma faithful_int: "faithful r \<Longrightarrow> \<bar>n\<bar> \<le> 2 ^ 53 \<Longrightarrow> r (real_of_int n) = Fin (real_of_int n)"
  by (simp add: faithful_def)

lemma faithful_0: "faithful r \<Longrightarrow> r 0 = Fin 0"
  using faithful_int [of r 0] by simp

lemma faithful_1: "faithful r \<Longrightarrow> r 1 = Fin 1"
  using faithful_int [of r 1] by simp

lemma faithful_100: "faithful r \<Longrightarrow> r 100 = Fin 100"
  using faithful_int [of r 100] by simp

lemma faithful_mono: "faithful r \<Longrightarrow> x \<le> y \<Longrightarrow> flt_le (r x) (r y)"
  by (simp add: faithful_def)

lemma faithful_nonneg: "faithful r \<Longrightarrow> 0 \<le> x \<Longrightarrow> flt_le (Fin 0) (r x)"
  using faithful_mono [of r 0 x] faithful_0 [of r] by simp

lemma round_half_even_int [simp]: "round_half_even (of_int n) = n"
  by (simp add: round_half_even_def)

lemma round_half_even_0 [simp]: "round_half_even 0 = 0"
  by (simp add: round_half_even_def)

lemma round_half_even_numeral [simp]: "round_half_even (numeral k) = numeral k"
  by (simp add: round_half_even_def)

lemma round_half_even_mono: "x \<le> y \<Longrightarrow> round_half_even x \<le> round_half_even y"
proof -
  assume xy: "x \<le> y"
  have fl: "\<lfloor>x\<rfloor> \<le> \<lfloor>y\<rfloor>" using xy by (rule floor_mono)
  show ?thesis
  proof (cases "\<lfloor>x\<rfloor> = \<lfloor>y\<rfloor>")
    case True
    then show ?thesis using xy by (auto simp: round_half_even_def Let_def)
  next
    case False
    then have "\<lfloor>x\<rfloor> + 1 \<le> \<lfloor>y\<rfloor>" using fl by simp
    moreover have "round_half_even x \<le> \<lfloor>x\<rfloor> + 1" by (simp add: round_half_even_def Let_def)
    moreover have "\<lfloor>y\<rfloor> \<le> round_half_even y" by (simp add: round_half_even_def Let_def)
    ultimately show ?thesis by linarith
  qed
qed

lemma round_half_even_nonneg: "0 \<le> x \<Longrightarrow> 0 \<le> round_half_even x"
  using round_half_even_mono [of 0 x] round_half_even_int [of 0] by simp

lemma py_round_nonneg:
  assumes "faithful (rnd L)" "flt_le (Fin 0) a"
  shows "flt_le (Fin 0) (py_round L a n)"
proof (cases a)
  case (Fin x)
  then have "0 \<le> x" using assms(2) by simp
  then have "0 \<le> real_of_int (round_half_even (x * 10 ^ n)) / 10 ^ n"
    by (simp add: round_half_even_nonneg)
  then show ?thesis unfolding Fin py_round.simps by (rule faithful_nonneg [OF assms(1)])
qed (use assms(2) in simp_all)

lemma py_round_0: "faithful (rnd L) \<Longrightarrow> py_round L (Fin 0) n = Fin 0"
  using faithful_0 [of "rnd L"] by simp

lemma py_round_exact:
  "rnd L = Fin \<Longrightarrow> py_round L (Fin x) n = Fin (of_int (round_half_even (x * 10 ^ n)) / 10 ^ n)"
  by simp

lemma py_round_le_100:
  assumes "faithful (rnd L)" "flt_le a (Fin 100)"
  shows "flt_le (py_round L a 2) (Fin 100)"
proof (cases a)
  case (Fin x)
  then have "x \<le> 100" using assms(2) by simp
  then have "round_half_even (x * 10 ^ 2) \<le> round_half_even 10000"
    by (intro round_half_even_mono) simp
  then have "real_of_int (round_half_even (x * 10 ^ 2)) / 10 ^ 2 \<le> 100" by simp
  then have "flt_le (rnd L (real_of_int (round_half_even (x * 10 ^ 2)) / 10 ^ 2)) (rnd L 100)"
    by (rule faithful_mono [OF assms(1)])
  then show ?thesis using faithful_100 [OF assms(1)] Fin by simp
qed (use assms(2) in simp_all)

section \<open>The win rate\<close>

lemma wins_le: "wins xs \<le> length xs"
  by (simp add: wins_def)

lemma win_rate_raw_range:
  assumes "faithful (rnd L)"
  shows "flt_le (Fin 0) (win_rate_raw L xs) \<and> flt_le (win_rate_raw L xs) (Fin 100)"
proof (cases "xs = []")
  case True
  then show ?thesis by (simp add: win_rate_raw_def)
next
  case False
  let ?q = "real (wins xs) / real (length xs)"
  have q0: "0 \<le> ?q" by simp
  have "real (wins xs) \<le> real (length xs)" using wins_le [of xs] by simp
  then have q1: "?q \<le> 1" using False by (simp add: divide_le_eq_1)
  have r0: "flt_le (Fin 0) (rnd L ?q)" by (rule faithful_nonneg [OF assms q0])
  have "flt_le (rnd L ?q) (rnd L 1)" by (rule faithful_mono [OF assms q1])
  then have r1: "flt_le (rnd L ?q) (Fin 1)" using faithful_1 [OF assms] by simp
  obtain y where y: "rnd L ?q = Fin y" "0 \<le> y" "y \<le> 1"
    using r0 r1 by (cases "rnd L ?q") auto
  have m0: "0 \<le> y * 100" using y(2) by simp
  have m1: "y * 100 \<le> 100" using y(3) by simp
  have a: "flt_le (Fin 0) (rnd L (y * 100))" by (rule faithful_nonneg [OF assms m0])
  have "flt_le (rnd L (y * 100)) (rnd L 100)" by (rule faithful_mono [OF assms m1])
  then have b: "flt_le (rnd L (y * 100)) (Fin 100)" using faithful_100 [OF assms] by simp
  show ?thesis using False a b y(1) by (simp add: win_rate_raw_def)
qed

text \<open>
  A single losing day: the daily series has one point and the win rate is \<open>0\<close>.
\<close>

theorem win_rate_zero_on_losing_day:
  "compute_metrics exact_runtime
     [[''timestamp'' \<mapsto> PyStr ''2024-03-05'', ''side'' \<mapsto> PyStr ''sell'',
       ''quantity'' \<mapsto> PyFloat (Fin 10), ''price'' \<mapsto> PyFloat (Fin 100)]] =
   Inr (\<lparr>total_return = Fin (- 1000), win_rate = Fin 0, volatility = Fin 0, sharpe = Fin 0,
          max_drawdown = Fin 0\<rparr>,
        [\<lparr>timestamp = ''2024-03-05'', pnl = Fin (- 1000)\<rparr>])"
  by (simp add: eval_trade eval_metrics)

lemma faithful_exact: "faithful (rnd exact_runtime)"
  by (simp add: exact_runtime_def runtime_of_simps faithful_id)

lemma one_win_in_three:
  "compute_metrics exact_runtime
     [[''timestamp'' \<mapsto> PyStr ''2024-03-05'', ''side'' \<mapsto> PyStr ''buy'',
       ''quantity'' \<mapsto> PyFloat (Fin 1), ''price'' \<mapsto> PyFloat (Fin 1)],
      [''timestamp'' \<mapsto> PyStr ''2024-03-06'', ''side'' \<mapsto> PyStr ''sell'',
       ''quantity'' \<mapsto> PyFloat (Fin 1), ''price'' \<mapsto> PyFloat (Fin 1)],
      [''timestamp'' \<mapsto> PyStr ''2024-03-07'', ''side'' \<mapsto> PyStr ''buy'',
       ''quantity'' \<mapsto> PyFloat (Fin 0), ''price'' \<mapsto> PyFloat (Fin 1)]] =
   Inr (\<lparr>total_return = Fin 0, win_rate = Fin (3333 / 100), volatility = Fin 1, sharpe = Fin 0,
          max_drawdown = Fin 1\<rparr>,
        [\<lparr>timestamp = ''2024-03-05'', pnl = Fin 1\<rparr>, \<lparr>timestamp = ''2024-03-06'', pnl = Fin (- 1)\<rparr>,
         \<lparr>timestamp = ''2024-03-07'', pnl = Fin 0\<rparr>])"
  by (simp add: eval_trade eval_metrics)

text \<open>
  C7. The \<open>win_rate\<close> returned by \<open>compute_metrics\<close> is \<open>100\<close> times the number of
  daily points with a strictly positive P&L divided by the number of daily points, rounded
  to 2 decimals; it lies between \<open>0\<close> and \<open>100\<close>; it is \<open>0\<close> when the daily series is
  empty, and also when it is not empty and no day has a positive P&L.
\<close>

theorem win_rate_formula:
  assumes "compute_metrics L trades = Inr (m, dl)" and "faithful (rnd L)"
  shows "win_rate m =
           py_round L (if dl = [] then Fin 0
                       else fmul L (fdiv L (Fin (real (wins (map pnl dl))))
                                      (Fin (real (length dl)))) (Fin 100)) 2
       \<and> flt_le (Fin 0) (win_rate m) \<and> flt_le (win_rate m) (Fin 100)
       \<and> (wins (map pnl dl) = 0 \<longrightarrow> win_rate m = Fin 0)
       \<and> (dl = [] \<longrightarrow> win_rate m = Fin 0)
       \<and> (rnd L = Fin \<longrightarrow> dl \<noteq> [] \<longrightarrow>
            win_rate m =
              Fin (of_int (round_half_even
                     (100 * real (wins (map pnl dl)) / real (length dl) * 10 ^ 2)) / 10 ^ 2))"
proof -
  have m: "win_rate m = py_round L (win_rate_raw L (map pnl dl)) 2"
    using compute_metrics_metrics [OF assms(1)]
    by (auto simp: metrics_of_def split: sum.splits)
  have a: "win_rate m =
           py_round L (if dl = [] then Fin 0
                       else fmul L (fdiv L (Fin (real (wins (map pnl dl))))
                                      (Fin (real (length dl)))) (Fin 100)) 2"
    using m by (simp add: win_rate_raw_def)
  have rng: "flt_le (Fin 0) (win_rate_raw L (map pnl dl))"
    "flt_le (win_rate_raw L (map pnl dl)) (Fin 100)"
    using win_rate_raw_range [OF assms(2)] by simp_all
  have b: "flt_le (Fin 0) (win_rate m)"
    unfolding m by (rule py_round_nonneg [OF assms(2) rng(1)])
  have c: "flt_le (win_rate m) (Fin 100)"
    unfolding m by (rule py_round_le_100 [OF assms(2) rng(2)])
  have d: "win_rate m = Fin 0" if "wins (map pnl dl) = 0"
    using that m faithful_0 [OF assms(2)] by (simp add: win_rate_raw_def)
  have e: "win_rate m = Fin 0" if "dl = []"
    using that m py_round_0 [OF assms(2)] by (simp add: win_rate_raw_def)
  have f: "win_rate m =
              Fin (of_int (round_half_even
                     (100 * real (wins (map pnl dl)) / real (length dl) * 10 ^ 2)) / 10 ^ 2)"
    if "rnd L = Fin" "dl \<noteq> []"
    using that m by (simp add: win_rate_raw_def mult.commute)
  show ?thesis
    apply (intro conjI impI)
    subgoal by (rule a)
    subgoal by (rule b)
    subgoal by (rule c)
    subgoal by (rule d)
    subgoal by (rule e)
    subgoal by (rule f)
    done
qed

theorem win_rate_formula_witness:
  "faithful (rnd exact_runtime)
   \<and> compute_metrics exact_runtime
     [[''timestamp'' \<mapsto> PyStr ''2024-03-05'', ''side'' \<mapsto> PyStr ''buy'',
       ''quantity'' \<mapsto> PyFloat (Fin 1), ''price'' \<mapsto> PyFloat (Fin 1)],
      [''timestamp'' \<mapsto> PyStr ''2024-03-06'', ''side'' \<mapsto> PyStr ''sell'',
       ''quantity'' \<mapsto> PyFloat (Fin 1), ''price'' \<mapsto> PyFloat (Fin 1)],
      [''timestamp'' \<mapsto> PyStr ''2024-03-07'', ''side'' \<mapsto> PyStr ''buy'',
       ''quantity'' \<mapsto> PyFloat (Fin 0), ''price'' \<mapsto> PyFloat (Fin 1)]] =
   Inr (\<lparr>total_return = Fin 0, win_rate = Fin (3333 / 100), volatility = Fin 1, sharpe = Fin 0,
          max_drawdown = Fin 1\<rparr>,
        [\<lparr>timestamp = ''2024-03-05'', pnl = Fin 1\<rparr>, \<lparr>timestamp = ''2024-03-06'', pnl = Fin (- 1)\<rparr>,
         \<lparr>timestamp = ''2024-03-07'', pnl = Fin 0\<rparr>])
   \<and> Fin (3333 / 100) =
       Fin (of_int (round_half_even
              (100 * real (wins [Fin 1, Fin (- 1), Fin 0]) / real (length [1, - 1, 0 :: real]) * 10 ^ 2))
            / 10 ^ 2)"
  using win_rate_formula [OF one_win_in_three faithful_exact] one_win_in_three faithful_exact
  by (simp add: exact_runtime_def runtime_of_simps)

section \<open>Exact arithmetic\<close>

lemma exact_arith_exact_runtime: "exact_arith exact_runtime"
proof -
  have "foldl (fadd (base_runtime Fin)) (Fin a) (map Fin xs) = Fin (a + sum_list xs)" for a xs
    by (induction xs arbitrary: a) (simp_all add: runtime_of_simps add.assoc)
  from this [of 0] show ?thesis
    by (simp add: exact_arith_def exact_runtime_def runtime_of_simps powr_half_sqrt)
qed

lemma fsum_exact: "exact_arith L \<Longrightarrow> fsum L (map Fin xs) = Fin (sum_list xs)"
  by (simp add: fsum_def exact_arith_def)

lemma mean_exact: "exact_arith L \<Longrightarrow> mean L (map Fin xs) = Fin (sample_mean xs)"
  by (simp add: mean_def sample_mean_def total_return_raw_def fsum_exact)
     (simp add: exact_arith_def)

lemma fsquare_exact:
  assumes "exact_arith L"
  shows "fsquare L (Fin d) = Inr (Fin (d ^ 2))"
proof -
  have "libm_pow L \<bar>d\<bar> 2 = Fin (d ^ 2)" if "d \<noteq> 0"
    using assms that by (simp add: exact_arith_def)
  moreover have "d ^ 2 = 1" if "\<bar>d\<bar> = 1"
    using that by (simp add: power2_eq_1_iff abs_if split: if_splits)
  ultimately show ?thesis by (simp add: checked_pow_def)
qed

lemma list_comp_squares:
  assumes "exact_arith L"
  shows "list_comp (\<lambda>v. fsquare L (fsub L v (Fin c))) (map Fin xs) =
           Inr (map Fin (map (\<lambda>x. (x - c) ^ 2) xs))"
proof -
  have r: "rnd L = Fin" using assms by (simp add: exact_arith_def)
  show ?thesis
    by (induction xs) (simp_all add: r fsquare_exact [OF assms] del: fsquare.simps)
qed

lemma variance_exact:
  assumes "exact_arith L"
  shows "variance L (map Fin xs) = Inr (Fin (sample_variance xs))"
proof -
  have r: "rnd L = Fin" using assms by (simp add: exact_arith_def)
  show ?thesis
    using list_comp_squares [OF assms, of "sample_mean xs" xs]
      fsum_exact [OF assms, of "map (\<lambda>x. (x - sample_mean xs) ^ 2) xs"]
    by (auto simp: variance_def sample_variance_def mean_exact [OF assms] r)
qed

lemma sample_variance_nonneg: "0 \<le> sample_variance xs"
  by (auto simp: sample_variance_def intro!: divide_nonneg_nonneg sum_list_nonneg)

lemma fsqrt_exact:
  assumes "exact_arith L" "0 \<le> v"
  shows "fsqrt L (Fin v) = Inr (Fin (sqrt v))"
proof -
  have "libm_pow L v (1 / 2) = Fin (sqrt v)" if "0 < v"
    using assms(1) that by (simp add: exact_arith_def)
  then show ?thesis using assms(2) by (auto simp: checked_pow_def)
qed

lemma std_exact: "exact_arith L \<Longrightarrow> std L (map Fin xs) = Inr (Fin (sqrt (sample_variance xs)))"
  by (simp add: std_def variance_exact fsqrt_exact sample_variance_nonneg del: fsqrt.simps)

section \<open>The volatility\<close>




lemma metrics_of_Inr:
  assumes "metrics_of L xs = Inr m"
  shows "\<exists>s sh. std L xs = Inr s \<and> sharpe_raw L xs s = Inr sh
           \<and> volatility m = py_round L s 4 \<and> sharpe m = py_round L sh 4
           \<and> max_drawdown m = py_round L (max_dd L xs) 4
           \<and> total_return m = py_round L (total_return_raw L xs) 4"
  using assms by (auto simp: metrics_of_def split: sum.splits)

lemma sqrt_4096: "sqrt 4096 = 64"
  using real_sqrt_abs [of 64] by simp

lemma spread_of_64:
  "compute_metrics exact_runtime
     [[''timestamp'' \<mapsto> PyStr ''2024-03-05'', ''side'' \<mapsto> PyStr ''sell'',
       ''quantity'' \<mapsto> PyFloat (Fin 1), ''price'' \<mapsto> PyFloat (Fin 63)],
      [''timestamp'' \<mapsto> PyStr ''2024-03-06'', ''side'' \<mapsto> PyStr ''buy'',
       ''quantity'' \<mapsto> PyFloat (Fin 1), ''price'' \<mapsto> PyFloat (Fin 1)],
      [''timestamp'' \<mapsto> PyStr ''2024-03-07'', ''side'' \<mapsto> PyStr ''buy'',
       ''quantity'' \<mapsto> PyFloat (Fin 1), ''price'' \<mapsto> PyFloat (Fin 65)]] =
   Inr (\<lparr>total_return = Fin 3, win_rate = Fin (6667 / 100), volatility = Fin 64,
          sharpe = Fin (39 / 2500), max_drawdown = Fin 0\<rparr>,
        [\<lparr>timestamp = ''2024-03-05'', pnl = Fin (- 63)\<rparr>, \<lparr>timestamp = ''2024-03-06'', pnl = Fin 1\<rparr>,
         \<lparr>timestamp = ''2024-03-07'', pnl = Fin 65\<rparr>])"
  by (simp add: eval_trade eval_metrics powr_half_sqrt sqrt_4096)





section \<open>The Sharpe ratio\<close>

lemma sqrt_tiny: "sqrt (1 / 1000000000000000000) = 1 / 1000000000"
  using real_sqrt_abs [of "1 / 1000000000"] by (simp add: power2_eq_square)

text \<open>
  Three days with P&L \<open>0\<close>, \<open>1e-9\<close> and \<open>2e-9\<close>: the mean and the standard deviation
  are both \<open>1e-9\<close>, so the deviation is not below the threshold and the quotient is
  \<open>1\<close>; the comparison \<open>std > 1e-9\<close> fails and the ratio returned is \<open>0\<close>.
\<close>

theorem sharpe_zero_at_epsilon:
  "compute_metrics exact_runtime
     [[''timestamp'' \<mapsto> PyStr ''2024-03-05'', ''side'' \<mapsto> PyStr ''buy'',
       ''quantity'' \<mapsto> PyFloat (Fin 0), ''price'' \<mapsto> PyFloat (Fin (1 / 10 ^ 9))],
      [''timestamp'' \<mapsto> PyStr ''2024-03-06'', ''side'' \<mapsto> PyStr ''buy'',
       ''quantity'' \<mapsto> PyFloat (Fin 1), ''price'' \<mapsto> PyFloat (Fin (1 / 10 ^ 9))],
      [''timestamp'' \<mapsto> PyStr ''2024-03-07'', ''side'' \<mapsto> PyStr ''buy'',
       ''quantity'' \<mapsto> PyFloat (Fin 2), ''price'' \<mapsto> PyFloat (Fin (1 / 10 ^ 9))]] =
   Inr (\<lparr>total_return = Fin 0, win_rate = Fin (6667 / 100), volatility = Fin 0, sharpe = Fin 0,
          max_drawdown = Fin 0\<rparr>,
        [\<lparr>timestamp = ''2024-03-05'', pnl = Fin 0\<rparr>,
         \<lparr>timestamp = ''2024-03-06'', pnl = Fin (1 / 10 ^ 9)\<rparr>,
         \<lparr>timestamp = ''2024-03-07'', pnl = Fin (2 / 10 ^ 9)\<rparr>])
   \<and> mean exact_runtime [Fin 0, Fin (1 / 10 ^ 9), Fin (2 / 10 ^ 9)] = Fin (1 / 10 ^ 9)
   \<and> std exact_runtime [Fin 0, Fin (1 / 10 ^ 9), Fin (2 / 10 ^ 9)] = Inr (Fin (1 / 10 ^ 9))"
  by (simp add: eval_trade eval_metrics powr_half_sqrt sqrt_tiny power2_eq_square)

text \<open>
  C4. The \<open>sharpe\<close> returned by \<open>compute_metrics\<close> is, rounded to 4 decimals, the mean
  daily P&L divided by the standard deviation when the deviation is strictly greater than
  \<open>1e-9\<close>, and \<open>0\<close> whenever it is not: when it is less than or equal to \<open>1e-9\<close>, and
  when it is NaN.
\<close>

theorem sharpe_formula:
  assumes "compute_metrics L trades = Inr (m, dl)" and "faithful (rnd L)"
  shows "\<exists>s. std L (map pnl dl) = Inr s
       \<and> sharpe m =
           py_round L (if flt_less (rnd L (1 / 10 ^ 9)) s
                       then fdiv L (mean L (map pnl dl)) s else Fin 0) 4
       \<and> (\<not> flt_less (rnd L (1 / 10 ^ 9)) s \<longrightarrow> sharpe m = Fin 0)
       \<and> (exact_arith L \<longrightarrow>
            (\<forall>xs. map pnl dl = map Fin xs \<longrightarrow>
               sharpe m =
                 Fin (of_int (round_half_even
                    ((if 1 / 10 ^ 9 < sqrt (sample_variance xs)
                      then sample_mean xs / sqrt (sample_variance xs) else 0)
                     * 10 ^ 4)) / 10 ^ 4)))"
proof -
  obtain s sh where s: "std L (map pnl dl) = Inr s" and sh: "sharpe_raw L (map pnl dl) s = Inr sh"
    and m: "sharpe m = py_round L sh 4"
    using metrics_of_Inr [OF compute_metrics_metrics [OF assms(1)]] by blast
  have shv: "sh = (if flt_less (rnd L (1 / 10 ^ 9)) s
                   then fdiv L (mean L (map pnl dl)) s else Fin 0)"
    using sh by (auto simp: sharpe_raw_def split: if_splits)
  have a: "sharpe m =
           py_round L (if flt_less (rnd L (1 / 10 ^ 9)) s
                       then fdiv L (mean L (map pnl dl)) s else Fin 0) 4"
    using m shv by simp
  have b: "sharpe m = Fin 0" if "\<not> flt_less (rnd L (1 / 10 ^ 9)) s"
    using that a py_round_0 [OF assms(2)] by simp
  have c: "sharpe m =
             Fin (of_int (round_half_even
                ((if 1 / 10 ^ 9 < sqrt (sample_variance xs)
                  then sample_mean xs / sqrt (sample_variance xs) else 0)
                 * 10 ^ 4)) / 10 ^ 4)"
    if ex: "exact_arith L" and fin: "map pnl dl = map Fin xs" for xs
  proof -
    have r: "rnd L = Fin" using ex by (simp add: exact_arith_def)
    have "s = Fin (sqrt (sample_variance xs))" using s std_exact [OF ex, of xs] fin by simp
    then show ?thesis using a r mean_exact [OF ex, of xs] fin by simp
  qed
  show ?thesis
    using s a b c by blast
qed

theorem sharpe_formula_witness:
  "faithful (rnd exact_runtime) \<and> exact_arith exact_runtime
   \<and> std exact_runtime [Fin (- 63), Fin 1, Fin 65] = Inr (Fin 64)
   \<and> mean exact_runtime [Fin (- 63), Fin 1, Fin 65] = Fin 1
   \<and> sharpe \<lparr>total_return = Fin 3, win_rate = Fin (6667 / 100), volatility = Fin 64,
          sharpe = Fin (39 / 2500), max_drawdown = Fin 0\<rparr> =
       py_round exact_runtime (fdiv exact_runtime (Fin 1) (Fin 64)) 4
   \<and> sample_mean [- 63, 1, 65] = 1 \<and> sample_variance [- 63, 1, 65] = 4096"
  using sharpe_formula [OF spread_of_64 faithful_exact] faithful_exact exact_arith_exact_runtime
  by (simp add: eval_metrics exact_runtime_def runtime_of_simps powr_half_sqrt sqrt_4096
      sample_variance_def sample_mean_def)

section \<open>Badly shaped records\<close>








section \<open>The forecast\<close>

lemma length_last_n: "length (last_n N xs) = min N (length xs)"
  by (auto simp: last_n_def)

lemma last_n_Nil_iff: "0 < N \<Longrightarrow> last_n N xs = [] \<longleftrightarrow> xs = []"
proof -
  assume "0 < N"
  then have "length xs \<le> length xs - N \<longleftrightarrow> length xs = 0" by arith
  then show ?thesis by (simp add: last_n_def)
qed

lemma insight_message_suffix:
  "suffix (case fc of
             Some f \<Rightarrow> ''Model projects next-day PnL around '' @ format_2f L f @ ''.''
           | None \<Rightarrow> ''Insufficient data for projection.'')
     (insight_message L m fc)"
  unfolding insight_message_def by (intro suffix_appendI suffix_order.refl)

lemma ai_insights_Inr:
  assumes "compute_metrics L trades = Inr (m, dl)" "trades \<noteq> []"
  shows "ai_insights L True (Some uid) trades =
           Inr [\<lparr>user_id = uid,
                 title = ''Daily Risk & Trend Overview'',
                 message = insight_message L m (forecast L dl),
                 tags = [''risk'', ''trend'', ''forecast''],
                 insight_metrics =
                   metrics.extend m
                     \<lparr>risk_exposure = volatility m, forecast_pnl = forecast L dl\<rparr>\<rparr>]"
  using assms by (simp add: ai_insights_def Let_def)

lemma forecast_nonempty:
  "dl \<noteq> [] \<Longrightarrow>
     forecast L dl =
       Some (py_round L (fdiv L (fsum L (map pnl (last_n 3 dl)))
                           (Fin (real (min 3 (length dl))))) 4)"
  by (simp add: forecast_def Let_def last_n_Nil_iff length_last_n)

lemma sixty_fourth:
  "compute_metrics exact_runtime
     [[''timestamp'' \<mapsto> PyStr ''2024-03-05'', ''side'' \<mapsto> PyStr ''buy'',
       ''quantity'' \<mapsto> PyFloat (Fin 1), ''price'' \<mapsto> PyFloat (Fin (1 / 64))]] =
   Inr (\<lparr>total_return = Fin (39 / 2500), win_rate = Fin 100, volatility = Fin 0, sharpe = Fin 0,
          max_drawdown = Fin 0\<rparr>,
        [\<lparr>timestamp = ''2024-03-05'', pnl = Fin (1 / 64)\<rparr>])"
  by (simp add: eval_trade eval_metrics)

lemma no_parseable_trade:
  "compute_metrics exact_runtime [[''timestamp'' \<mapsto> PyStr ''yesterday'']] =
     Inr (\<lparr>total_return = Fin 0, win_rate = Fin 0, volatility = Fin 0, sharpe = Fin 0,
            max_drawdown = Fin 0\<rparr>, [])"
  by (simp add: eval_trade eval_metrics)

text \<open>
  One trade, buy 1 at \<open>0.015625\<close>: the daily series is \<open>[0.015625]\<close>, the mean of its
  last point is \<open>0.015625\<close>, and the forecast is \<open>0.0156\<close>. A user without any trade
  gets no insight at all.
\<close>

theorem forecast_is_rounded:
  "compute_metrics exact_runtime
     [[''timestamp'' \<mapsto> PyStr ''2024-03-05'', ''side'' \<mapsto> PyStr ''buy'',
       ''quantity'' \<mapsto> PyFloat (Fin 1), ''price'' \<mapsto> PyFloat (Fin (1 / 64))]] =
   Inr (\<lparr>total_return = Fin (39 / 2500), win_rate = Fin 100, volatility = Fin 0, sharpe = Fin 0,
          max_drawdown = Fin 0\<rparr>,
        [\<lparr>timestamp = ''2024-03-05'', pnl = Fin (1 / 64)\<rparr>])
   \<and> map_sum id (map (\<lambda>i. forecast_pnl (insight_metrics i)))
       (ai_insights exact_runtime True (Some ''u1'')
          [[''timestamp'' \<mapsto> PyStr ''2024-03-05'', ''side'' \<mapsto> PyStr ''buy'',
            ''quantity'' \<mapsto> PyFloat (Fin 1), ''price'' \<mapsto> PyFloat (Fin (1 / 64))]]) =
     Inr [Some (Fin (39 / 2500))]
   \<and> ai_insights exact_runtime True (Some ''u1'') [] = Inr []"
  using sixty_fourth
  by (simp add: ai_insights_def forecast_def last_n_def Let_def fsum_def exact_runtime_def
      runtime_of_simps round_half_even_def metrics.defs)

text \<open>
  C9. For a non-empty daily series the forecast is the mean of the P&L of its last
  \<open>min(3, length)\<close> points, as \<open>sum(last) / len(last)\<close> computes it, rounded to 4
  decimals; for an empty series it is \<open>None\<close>. When \<open>compute_metrics\<close> returns on a
  non-empty collection of trades, \<open>ai_insights\<close> returns one insight that carries this
  forecast; its message ends with the insufficient-data phrase when the series is empty
  and with the projection when it is not.
\<close>

theorem forecast_formula:
  "forecast L [] = None
   \<and> (dl \<noteq> [] \<longrightarrow>
        forecast L dl =
          Some (py_round L (fdiv L (fsum L (map pnl (last_n 3 dl)))
                              (Fin (real (min 3 (length dl))))) 4)
        \<and> last_n 3 dl = drop (length dl - 3) dl \<and> length (last_n 3 dl) = min 3 (length dl))
   \<and> (exact_arith L \<longrightarrow>
        (\<forall>xs. dl \<noteq> [] \<and> map pnl (last_n 3 dl) = map Fin xs \<longrightarrow>
           forecast L dl =
             Some (Fin (of_int (round_half_even (sum_list xs / real (length xs) * 10 ^ 4))
                        / 10 ^ 4))))
   \<and> (compute_metrics L trades = Inr (m, dl) \<and> trades \<noteq> [] \<longrightarrow>
        (\<exists>i. ai_insights L True (Some uid) trades = Inr [i]
           \<and> forecast_pnl (insight_metrics i) = forecast L dl
           \<and> (dl = [] \<longrightarrow>
                forecast_pnl (insight_metrics i) = None
                \<and> suffix ''Insufficient data for projection.'' (message i))
           \<and> (dl \<noteq> [] \<longrightarrow>
                (\<exists>f. forecast_pnl (insight_metrics i) = Some f
                   \<and> suffix (''Model projects next-day PnL around '' @ format_2f L f @ ''.'')
                        (message i)))))"
proof -
  have a: "forecast L [] = None" by (simp add: forecast_def last_n_def)
  have b: "forecast L dl =
          Some (py_round L (fdiv L (fsum L (map pnl (last_n 3 dl)))
                              (Fin (real (min 3 (length dl))))) 4)
        \<and> last_n 3 dl = drop (length dl - 3) dl \<and> length (last_n 3 dl) = min 3 (length dl)"
    if "dl \<noteq> []"
    using that by (simp add: forecast_nonempty length_last_n) (simp add: last_n_def)
  have c: "forecast L dl =
             Some (Fin (of_int (round_half_even (sum_list xs / real (length xs) * 10 ^ 4))
                        / 10 ^ 4))"
    if ex: "exact_arith L" and ne: "dl \<noteq> []" and fin: "map pnl (last_n 3 dl) = map Fin xs" for xs
  proof -
    have r: "rnd L = Fin" using ex by (simp add: exact_arith_def)
    have len: "length xs = min 3 (length dl)"
      using fin length_last_n [of 3 dl] by (metis length_map)
    show ?thesis
      using forecast_nonempty [OF ne, of L] fin fsum_exact [OF ex, of xs] r len by simp
  qed
  have d: "\<exists>i. ai_insights L True (Some uid) trades = Inr [i]
           \<and> forecast_pnl (insight_metrics i) = forecast L dl
           \<and> (dl = [] \<longrightarrow>
                forecast_pnl (insight_metrics i) = None
                \<and> suffix ''Insufficient data for projection.'' (message i))
           \<and> (dl \<noteq> [] \<longrightarrow>
                (\<exists>f. forecast_pnl (insight_metrics i) = Some f
                   \<and> suffix (''Model projects next-day PnL around '' @ format_2f L f @ ''.'')
                        (message i)))"
    if run: "compute_metrics L trades = Inr (m, dl)" and ne: "trades \<noteq> []"
  proof -
    let ?i = "\<lparr>user_id = uid,
                 title = ''Daily Risk & Trend Overview'',
                 message = insight_message L m (forecast L dl),
                 tags = [''risk'', ''trend'', ''forecast''],
                 insight_metrics =
                   metrics.extend m
                     \<lparr>risk_exposure = volatility m, forecast_pnl = forecast L dl\<rparr>\<rparr>"
    have i: "ai_insights L True (Some uid) trades = Inr [?i]"
      by (rule ai_insights_Inr [OF run ne])
    have fp: "forecast_pnl (insight_metrics ?i) = forecast L dl"
      by (simp add: metrics.defs)
    have msg: "message ?i = insight_message L m (forecast L dl)" by simp
    have e: "forecast_pnl (insight_metrics ?i) = None
             \<and> suffix ''Insufficient data for projection.'' (message ?i)" if "dl = []"
    proof -
      have n: "forecast L dl = None" using that a by simp
      show ?thesis
        using insight_message_suffix [of L None m] fp msg n by simp
    qed
    have f: "\<exists>f. forecast_pnl (insight_metrics ?i) = Some f
                   \<and> suffix (''Model projects next-day PnL around '' @ format_2f L f @ ''.'')
                        (message ?i)" if ne2: "dl \<noteq> []"
    proof -
      obtain f where n: "forecast L dl = Some f" using forecast_nonempty [OF ne2] by blast
      show ?thesis
        using insight_message_suffix [of L "Some f" m] fp msg n by simp
    qed
    show ?thesis using i fp e f by blast
  qed
  show ?thesis
    using a b c d by blast
qed


theorem forecast_formula_witness:
  "exact_arith exact_runtime
   \<and> forecast exact_runtime
       [\<lparr>timestamp = ''2024-03-05'', pnl = Fin 100\<rparr>, \<lparr>timestamp = ''2024-03-06'', pnl = Fin 105\<rparr>,
        \<lparr>timestamp = ''2024-03-07'', pnl = Fin 98\<rparr>] = Some (Fin 101)
   \<and> compute_metrics exact_runtime [[''timestamp'' \<mapsto> PyStr ''yesterday'']] =
       Inr (\<lparr>total_return = Fin 0, win_rate = Fin 0, volatility = Fin 0, sharpe = Fin 0,
              max_drawdown = Fin 0\<rparr>, [])
   \<and> (\<exists>i. ai_insights exact_runtime True (Some ''u1'') [[''timestamp'' \<mapsto> PyStr ''yesterday'']] =
             Inr [i]
          \<and> forecast_pnl (insight_metrics i) = None
          \<and> suffix ''Insufficient data for projection.'' (message i))"
  using forecast_formula [where L = exact_runtime
      and dl = "[\<lparr>timestamp = ''2024-03-05'', pnl = Fin 100\<rparr>,
                 \<lparr>timestamp = ''2024-03-06'', pnl = Fin 105\<rparr>,
                 \<lparr>timestamp = ''2024-03-07'', pnl = Fin 98\<rparr>]"
      and trades = "[]"]
    forecast_formula [where L = exact_runtime and dl = "[]"
      and trades = "[[''timestamp'' \<mapsto> PyStr ''yesterday'']]"
      and m = "\<lparr>total_return = Fin 0, win_rate = Fin 0, volatility = Fin 0, sharpe = Fin 0,
              max_drawdown = Fin 0\<rparr>" and uid = "''u1''"]
    no_parseable_trade exact_arith_exact_runtime
  by (simp add: last_n_def fsum_def exact_runtime_def runtime_of_simps round_half_even_def)

end
